theory Spec2Isabelle
  imports Complex_Main
begin

section \<open>Tensors, errors and the framework operations the policy uses\<close>

text \<open>
  The policy classes of \<^verbatim>\<open>tf2rl/policies/tfp_categorical_actor.py\<close> are glue over
  Keras layers and a TensorFlow Probability distribution. The float32 tensors of the
  program are modelled with real entries, so rounding, overflow and NaN are outside the
  model. A batch of states is a list of state vectors (\<^verbatim>\<open>state_shape = (state_dim,)\<close>).
  Every exception of the Python program is a value \<open>Inl e\<close>.
\<close>

type_synonym vec = "real list"
type_synonym batch = "vec list"

datatype error =
    AttributeError string
  | NotImplementedError string
  | TypeError string
  | KeyError string
  | ValueError string
  | InvalidArgumentError string

text \<open>Running a fallible function over a list stops at the first error.\<close>

fun map_err :: "('a \<Rightarrow> error + 'b) \<Rightarrow> 'a list \<Rightarrow> error + 'b list" where
  "map_err f [] = Inr []"
| "map_err f (x # xs) =
     (case f x of Inl e \<Rightarrow> Inl e
      | Inr y \<Rightarrow> (case map_err f xs of Inl e \<Rightarrow> Inl e | Inr ys \<Rightarrow> Inr (y # ys)))"

subsection \<open>Tensors of any rank\<close>

text \<open>
  \<^verbatim>\<open>compute_log_probs\<close> compares and changes tensor ranks (\<^verbatim>\<open>tf.rank\<close>,
  \<^verbatim>\<open>tf.squeeze\<close>, \<^verbatim>\<open>tf.expand_dims\<close>, \<^verbatim>\<open>tf.one_hot\<close>), so the values it handles are
  tensors with their shape: the sizes of the axes and the entries in row-major order. The
  rank is the number of axes, also when an axis has size 0.
\<close>

datatype 'a tensor = Tensor (dims: "nat list") (flat: "'a list")

definition rank :: "'a tensor \<Rightarrow> nat" where
  "rank t = length (dims t)"

definition squeeze :: "'a tensor \<Rightarrow> 'a tensor" where
  \<comment> \<open>\<^verbatim>\<open>tf.squeeze(t)\<close>: every axis of size 1 is removed\<close>
  "squeeze t = Tensor (filter (\<lambda>n. n \<noteq> 1) (dims t)) (flat t)"


definition one_hot :: "int tensor \<Rightarrow> nat \<Rightarrow> real tensor" where
  \<comment> \<open>a new last axis of size \<open>depth\<close>; an index outside \<open>0 .. depth - 1\<close> gives a row
      of zeros, as in TensorFlow\<close>
  "one_hot t depth =
     Tensor (dims t @ [depth])
       (concat (map (\<lambda>i. map (\<lambda>j. if int j = i then 1 else 0) [0..<depth]) (flat t)))"

definition of_batch :: "batch \<Rightarrow> real tensor" where
  \<comment> \<open>a batch of rows as a tensor of rank 2; a list of rows does not record the width of
      an empty batch, which is written 0\<close>
  "of_batch b = Tensor [length b, (case b of [] \<Rightarrow> 0 | r # rs \<Rightarrow> length r)] (concat b)"

fun rows_of :: "nat \<Rightarrow> nat \<Rightarrow> 'a list \<Rightarrow> 'a list list" where
  "rows_of 0 n xs = []"
| "rows_of (Suc m) n xs = take n xs # rows_of m n (drop n xs)"

definition to_batch :: "real tensor \<Rightarrow> error + batch" where
  "to_batch t =
     (case dims t of [m, n] \<Rightarrow> Inr (rows_of m n (flat t))
      | _ \<Rightarrow> Inl (ValueError ''expected rank 2''))"

fun argmax :: "vec \<Rightarrow> nat" where
  \<comment> \<open>index of the first maximal entry\<close>
  "argmax [] = 0"
| "argmax [x] = 0"
| "argmax (x # xs) = (if \<forall>y\<in>set xs. y \<le> x then 0 else Suc (argmax xs))"

definition argmax_axis1 :: "real tensor \<Rightarrow> error + nat list" where
  \<comment> \<open>\<^verbatim>\<open>tf.math.argmax(t, axis=1)\<close> on a rank-2 tensor\<close>
  "argmax_axis1 t =
     (case to_batch t of Inl e \<Rightarrow> Inl e
      | Inr rows \<Rightarrow>
          if [] \<in> set rows then Inl (InvalidArgumentError ''reduction over an empty axis'')
          else Inr (map argmax rows))"

definition squeeze_axis1 :: "nat list list \<Rightarrow> error + nat list" where
  \<comment> \<open>\<^verbatim>\<open>tf.squeeze(t, axis=1)\<close>: axis 1 must have size 1\<close>
  "squeeze_axis1 rows =
     map_err (\<lambda>r. case r of [a] \<Rightarrow> Inr a
                   | _ \<Rightarrow> Inl (InvalidArgumentError ''cannot squeeze axis 1'')) rows"

subsection \<open>Dense layers\<close>

datatype activation = Linear | Relu | Tanh | Sigmoid | Softmax

definition softmax :: "vec \<Rightarrow> vec" where
  "softmax z = map (\<lambda>x. exp x / sum_list (map exp z)) z"

fun activate :: "activation \<Rightarrow> vec \<Rightarrow> vec" where
  "activate Linear z = z"
| "activate Relu z = map (max 0) z"
| "activate Tanh z = map tanh z"
| "activate Sigmoid z = map (\<lambda>x. 1 / (1 + exp (- x))) z"
| "activate Softmax z = softmax z"

text \<open>
  A dense layer holds a kernel of \<open>in_dim\<close> rows and \<open>n_units\<close> columns and a bias of
  \<open>n_units\<close> entries. Keras creates both at the layer's first call, for the width of the
  input it sees then; in both classes that first call is the forward pass at the end of
  \<^verbatim>\<open>__init__\<close>, so the model creates a layer together with its weights. The entries come
  from the framework (the initialisers, later the optimiser): they are parameters.
\<close>

record dense =
  n_units :: nat
  activation :: activation
  kernel :: "real list list"
  bias :: vec

definition Dense :: "(nat \<Rightarrow> nat \<Rightarrow> real) \<Rightarrow> (nat \<Rightarrow> real) \<Rightarrow> nat \<Rightarrow> nat \<Rightarrow> activation \<Rightarrow> dense" where
  "Dense w b in_dim n a =
     \<lparr>n_units = n, activation = a,
      kernel = map (\<lambda>i. map (w i) [0..<n]) [0..<in_dim],
      bias = map b [0..<n]\<rparr>"

definition affine :: "dense \<Rightarrow> vec \<Rightarrow> vec" where
  \<comment> \<open>\<open>x \<cdot> kernel + bias\<close>\<close>
  "affine l x =
     map (\<lambda>j. sum_list (map2 (\<lambda>xi row. xi * row ! j) x (kernel l)) + bias l ! j)
       [0..<n_units l]"

definition dense_apply :: "dense \<Rightarrow> vec \<Rightarrow> error + vec" where
  "dense_apply l x =
     (if length x = length (kernel l) then Inr (activate (activation l) (affine l x))
      else Inl (ValueError ''input width does not match the layer''))"

definition dense_call :: "dense \<Rightarrow> batch \<Rightarrow> error + batch" where
  "dense_call l xs = map_err (dense_apply l) xs"

subsection \<open>The categorical distribution object\<close>

text \<open>
  \<^verbatim>\<open>tfp.distributions.Categorical(logits=None, probs=None, ...)\<close>: the first positional
  argument is \<open>logits\<close>, and the class probabilities of the distribution are the softmax
  of the logits. \<open>sample\<close> draws one class per batch row from a uniform draw in \<open>[0, 1)\<close>
  (\<open>rng i\<close> for row \<open>i\<close>) by walking the cumulative probabilities. \<open>mean\<close> is not
  implemented for this distribution: the library raises.
\<close>

record categorical =
  logits :: batch

definition Categorical :: "batch \<Rightarrow> categorical" where
  "Categorical x = \<lparr>logits = x\<rparr>"

definition probs_parameter :: "categorical \<Rightarrow> batch" where
  "probs_parameter d = map softmax (logits d)"

fun pick :: "real \<Rightarrow> vec \<Rightarrow> nat" where
  "pick u [] = 0"
| "pick u [p] = 0"
| "pick u (p # ps) = (if u < p then 0 else Suc (pick (u - p) ps))"

definition Categorical_sample :: "categorical \<Rightarrow> (nat \<Rightarrow> real) \<Rightarrow> error + nat list" where
  "Categorical_sample d rng =
     (if [] \<in> set (logits d) then Inl (InvalidArgumentError ''num_classes should be positive'')
      else Inr (map (\<lambda>(i, p). pick (rng i) p) (enumerate 0 (probs_parameter d))))"

definition Categorical_mean :: "categorical \<Rightarrow> error + nat list" where
  "Categorical_mean d = Inl (NotImplementedError ''mean is not implemented: Categorical'')"

text \<open>
  \<open>prob\<close> and \<open>log_prob\<close> look the class up row by row. A batch of one row or a single
  action is broadcast against the other argument; any other pair of different lengths is
  an error of the library.
\<close>

definition gather :: "(real \<Rightarrow> real) \<Rightarrow> batch \<Rightarrow> nat list \<Rightarrow> error + vec" where
  "gather f ps action =
     map_err (\<lambda>(p, a). if a < length p then Inr (f (p ! a))
                        else Inl (InvalidArgumentError ''class index out of range''))
       (zip ps action)"

definition broadcast_gather :: "(real \<Rightarrow> real) \<Rightarrow> batch \<Rightarrow> nat list \<Rightarrow> error + vec" where
  "broadcast_gather f ps action =
     (if length action = length ps then gather f ps action
      else if length action = 1 then gather f ps (replicate (length ps) (hd action))
      else if length ps = 1 then gather f (replicate (length action) (hd ps)) action
      else Inl (InvalidArgumentError ''incompatible shapes''))"

definition Categorical_prob :: "categorical \<Rightarrow> nat list \<Rightarrow> error + vec" where
  "Categorical_prob d action = broadcast_gather (\<lambda>x. x) (probs_parameter d) action"

definition Categorical_entropy :: "categorical \<Rightarrow> vec" where
  "Categorical_entropy d =
     map (\<lambda>p. - sum_list (map (\<lambda>x. x * ln x) p)) (probs_parameter d)"

subsection \<open>Subscripts and attribute reads\<close>

text \<open>
  The program subscripts two kinds of value with \<^verbatim>\<open>["prob"]\<close>: a dict (in
  \<^verbatim>\<open>CategoricalActorCritic.call\<close>) and the distribution object returned by
  \<^verbatim>\<open>_compute_dist\<close> (in \<^verbatim>\<open>compute_prob\<close> and \<^verbatim>\<open>compute_log_probs\<close>). A dict is read and
  written by key. A subscript on a distribution object slices its batch axes; with a
  string the slicing fails inside the library (\<^verbatim>\<open>tf.errors.InvalidArgumentError\<close>), and
  the object supports no item assignment.
\<close>

datatype param = Dict "string \<rightharpoonup> real tensor" | Distribution categorical

fun getitem :: "param \<Rightarrow> string \<Rightarrow> error + real tensor" where
  "getitem (Dict m) k = (case m k of None \<Rightarrow> Inl (KeyError k) | Some t \<Rightarrow> Inr t)"
| "getitem (Distribution d) k =
     Inl (InvalidArgumentError ''a string does not slice the batch of a distribution'')"


text \<open>
  The classes read three attributes that no \<^verbatim>\<open>__init__\<close> assigns and no class body
  defines: \<^verbatim>\<open>_compute_feature\<close>, \<^verbatim>\<open>prob\<close> and \<^verbatim>\<open>dist\<close>. Such a name can only resolve
  through the framework base class \<^verbatim>\<open>tf.keras.Model\<close>; what that class provides is the
  parameter \<open>inherited\<close> of an instance. A value found there is either callable on a batch
  or an object with the methods \<^verbatim>\<open>sample\<close> and \<^verbatim>\<open>log_likelihood\<close>.
\<close>

datatype val =
    Callable "batch \<Rightarrow> error + batch"
  | DistModule "(nat \<Rightarrow> real) \<Rightarrow> param \<Rightarrow> error + nat list list"
               "real tensor \<Rightarrow> param \<Rightarrow> error + vec"

fun apply_callable :: "val \<Rightarrow> batch \<Rightarrow> error + batch" where
  "apply_callable (Callable f) x = f x"
| "apply_callable (DistModule s l) x = Inl (TypeError ''object is not callable'')"

fun dist_sample :: "val \<Rightarrow> (nat \<Rightarrow> real) \<Rightarrow> param \<Rightarrow> error + nat list list" where
  "dist_sample (DistModule s l) rng p = s rng p"
| "dist_sample (Callable f) rng p = Inl (AttributeError ''sample'')"

fun dist_log_likelihood :: "val \<Rightarrow> real tensor \<Rightarrow> param \<Rightarrow> error + vec" where
  "dist_log_likelihood (DistModule s l) x p = l x p"
| "dist_log_likelihood (Callable f) x p = Inl (AttributeError ''log_likelihood'')"

section \<open>CategoricalActor\<close>

record actor =
  action_dim :: nat
  base_layers :: "dense list"
  out_prob :: dense
  inherited :: "string \<rightharpoonup> val"

definition getattr :: "'x actor_scheme \<Rightarrow> string \<Rightarrow> error + val" where
  "getattr self name =
     (case inherited self name of None \<Rightarrow> Inl (AttributeError name) | Some x \<Rightarrow> Inr x)"

text \<open>The loop of \<^verbatim>\<open>__init__\<close> over \<^verbatim>\<open>units\<close>: layer \<open>k\<close> takes its weights from
  \<open>kinit k\<close> and \<open>binit k\<close>, and its input width from the layer before it.\<close>

fun make_layers ::
  "(nat \<Rightarrow> nat \<Rightarrow> nat \<Rightarrow> real) \<Rightarrow> (nat \<Rightarrow> nat \<Rightarrow> real) \<Rightarrow> nat \<Rightarrow> nat \<Rightarrow> nat list \<Rightarrow> activation
     \<Rightarrow> dense list" where
  "make_layers kinit binit k in_dim [] a = []"
| "make_layers kinit binit k in_dim (cur_layer_size # rest) a =
     Dense (kinit k) (binit k) in_dim cur_layer_size a
       # make_layers kinit binit (Suc k) cur_layer_size rest a"

text \<open>The loop of \<^verbatim>\<open>_compute_dist\<close> over \<^verbatim>\<open>self.base_layers\<close>.\<close>

fun forward :: "dense list \<Rightarrow> batch \<Rightarrow> error + batch" where
  "forward [] features = Inr features"
| "forward (cur_layer # rest) features =
     (case dense_call cur_layer features of Inl e \<Rightarrow> Inl e
      | Inr features' \<Rightarrow> forward rest features')"

definition compute_dist :: "'x actor_scheme \<Rightarrow> batch \<Rightarrow> error + categorical" where
  "compute_dist self states =
     (case forward (base_layers self) states of Inl e \<Rightarrow> Inl e
      | Inr features \<Rightarrow>
     (case dense_call (out_prob self) features of Inl e \<Rightarrow> Inl e
      | Inr probs \<Rightarrow> Inr (Categorical probs)))"

definition compute_prob :: "'x actor_scheme \<Rightarrow> batch \<Rightarrow> error + real tensor" where
  "compute_prob self states =
     (case compute_dist self states of Inl e \<Rightarrow> Inl e
      | Inr distr \<Rightarrow> getitem (Distribution distr) ''prob'')"

definition call :: "'x actor_scheme \<Rightarrow> batch \<Rightarrow> bool \<Rightarrow> (nat \<Rightarrow> real) \<Rightarrow> error + nat list \<times> vec" where
  "call self states test rng =
     (case compute_dist self states of Inl e \<Rightarrow> Inl e
      | Inr distr \<Rightarrow>
     (case (if test then Categorical_mean distr else Categorical_sample distr rng) of
        Inl e \<Rightarrow> Inl e
      | Inr action \<Rightarrow>
     (case Categorical_prob distr action of Inl e \<Rightarrow> Inl e
      | Inr log_prob \<Rightarrow> Inr (action, log_prob))))"

definition compute_entropy :: "'x actor_scheme \<Rightarrow> batch \<Rightarrow> error + vec" where
  "compute_entropy self states =
     (case compute_dist self states of Inl e \<Rightarrow> Inl e
      | Inr distr \<Rightarrow> Inr (Categorical_entropy distr))"


text \<open>
  \<^verbatim>\<open>__init__\<close>. Its last statement \<^verbatim>\<open>self(tf.constant(np.zeros(...)))\<close> runs the \<^verbatim>\<open>call\<close>
  of the class being constructed on one zero state, with \<^verbatim>\<open>test=False\<close>; that method is
  the parameter \<open>callm\<close>, and \<open>ext\<close> holds the fields a subclass has already assigned.
\<close>

definition CategoricalActor_init ::
  "('x actor_scheme \<Rightarrow> batch \<Rightarrow> bool \<Rightarrow> (nat \<Rightarrow> real) \<Rightarrow> error + 'r) \<Rightarrow> 'x \<Rightarrow> (string \<rightharpoonup> val)
     \<Rightarrow> (nat \<Rightarrow> nat \<Rightarrow> nat \<Rightarrow> real) \<Rightarrow> (nat \<Rightarrow> nat \<Rightarrow> real)
     \<Rightarrow> nat \<Rightarrow> nat \<Rightarrow> nat list \<Rightarrow> activation \<Rightarrow> (nat \<Rightarrow> real)
     \<Rightarrow> error + 'x actor_scheme" where
  "CategoricalActor_init callm ext base kinit binit state_dim adim units hidden_activation rng =
     (let self = \<lparr>action_dim = adim,
                  base_layers = make_layers kinit binit 0 state_dim units hidden_activation,
                  out_prob = Dense (kinit (length units)) (binit (length units))
                               (last (state_dim # units)) adim Softmax,
                  inherited = base, \<dots> = ext\<rparr>
      in case callm self [replicate state_dim 0] False rng of Inl e \<Rightarrow> Inl e
         | Inr r \<Rightarrow> Inr self)"

definition CategoricalActor ::
  "(string \<rightharpoonup> val) \<Rightarrow> (nat \<Rightarrow> nat \<Rightarrow> nat \<Rightarrow> real) \<Rightarrow> (nat \<Rightarrow> nat \<Rightarrow> real)
     \<Rightarrow> nat \<Rightarrow> nat \<Rightarrow> nat list \<Rightarrow> activation \<Rightarrow> (nat \<Rightarrow> real) \<Rightarrow> error + actor" where
  "CategoricalActor = CategoricalActor_init call ()"

section \<open>CategoricalActorCritic\<close>

record critic = actor +
  v :: dense

definition CategoricalActorCritic_call ::
  "'x critic_scheme \<Rightarrow> batch \<Rightarrow> bool \<Rightarrow> (nat \<Rightarrow> real) \<Rightarrow> error + nat list \<times> vec \<times> batch" where
  "CategoricalActorCritic_call self states test rng =
     (case getattr self ''_compute_feature'' of Inl e \<Rightarrow> Inl e
      | Inr compute_feature \<Rightarrow>
     (case apply_callable compute_feature states of Inl e \<Rightarrow> Inl e
      | Inr features \<Rightarrow>
     (case getattr self ''prob'' of Inl e \<Rightarrow> Inl e
      | Inr prob \<Rightarrow>
     (case apply_callable prob features of Inl e \<Rightarrow> Inl e
      | Inr probs \<Rightarrow>
     (let param = Dict [''prob'' \<mapsto> of_batch probs]
      in case (if test
               then (case getitem param ''prob'' of Inl e \<Rightarrow> Inl e
                     | Inr p \<Rightarrow> argmax_axis1 p)
               else (case getattr self ''dist'' of Inl e \<Rightarrow> Inl e
                     | Inr dist_attr \<Rightarrow>
                    (case dist_sample dist_attr rng param of Inl e \<Rightarrow> Inl e
                     | Inr s \<Rightarrow> squeeze_axis1 s))) of Inl e \<Rightarrow> Inl e
      | Inr action \<Rightarrow>
     (case getattr self ''dist'' of Inl e \<Rightarrow> Inl e
      | Inr dist_attr \<Rightarrow>
     (case dist_log_likelihood dist_attr
             (one_hot (Tensor [length action] (map int action)) (action_dim self)) param of
        Inl e \<Rightarrow> Inl e
      | Inr log_prob \<Rightarrow>
     (case dense_call (v self) features of Inl e \<Rightarrow> Inl e
      | Inr value \<Rightarrow> Inr (action, log_prob, value)))))))))"

text \<open>
  \<^verbatim>\<open>__init__\<close> assigns \<^verbatim>\<open>self.v = Dense(1, activation="linear")\<close> and then runs the parent
  constructor, whose forward pass dispatches to the \<^verbatim>\<open>call\<close> above. The value layer
  reads the features, so its input width is that of the last hidden layer.
\<close>

definition CategoricalActorCritic ::
  "(string \<rightharpoonup> val) \<Rightarrow> (nat \<Rightarrow> nat \<Rightarrow> nat \<Rightarrow> real) \<Rightarrow> (nat \<Rightarrow> nat \<Rightarrow> real)
     \<Rightarrow> nat \<Rightarrow> nat \<Rightarrow> nat list \<Rightarrow> activation \<Rightarrow> (nat \<Rightarrow> real) \<Rightarrow> error + critic" where
  "CategoricalActorCritic base kinit binit state_dim adim units hidden_activation rng =
     CategoricalActor_init CategoricalActorCritic_call
       \<lparr>v = Dense (kinit (Suc (length units))) (binit (Suc (length units)))
              (last (state_dim # units)) 1 Linear\<rparr>
       base kinit binit state_dim adim units hidden_activation rng"

section \<open>Reference definitions and example instances\<close>

text \<open>
  What the documentation of the classes describes, written independently of the methods:
  the output of one layer on one state, the hidden layers applied in order, and the
  log-probability of a class under the distribution (the library's \<^verbatim>\<open>log_prob\<close>,
  the quantity the docstring of \<^verbatim>\<open>call\<close> names).
\<close>

definition layer_out :: "dense \<Rightarrow> vec \<Rightarrow> vec" where
  "layer_out l x = activate (activation l) (affine l x)"

definition feed_through :: "dense list \<Rightarrow> vec \<Rightarrow> vec" where
  "feed_through ls x = foldl (\<lambda>features l. layer_out l features) x ls"

definition Categorical_log_prob :: "categorical \<Rightarrow> nat list \<Rightarrow> error + vec" where
  "Categorical_log_prob d action = broadcast_gather ln (probs_parameter d) action"

text \<open>
  A small actor, \<^verbatim>\<open>CategoricalActor(state_shape=(1,), action_dim=2, units=(1,))\<close> with
  all weights zero, and the object a \<^verbatim>\<open>CategoricalActorCritic\<close> constructor with the
  same arguments has assembled when it reaches its forward pass. A second actor,
  \<^verbatim>\<open>CategoricalActor(state_shape=(1,), action_dim=2, units=())\<close>, has a zero kernel and
  the bias \<open>[0, ln 3]\<close> in its output layer, so its network gives the two classes the
  probabilities 1/4 and 3/4 on every state.
\<close>


definition zero_kernel :: "nat \<Rightarrow> nat \<Rightarrow> nat \<Rightarrow> real" where
  "zero_kernel k i j = 0"

definition zero_bias :: "nat \<Rightarrow> nat \<Rightarrow> real" where
  "zero_bias k j = 0"

definition example_actor :: actor where
  "example_actor =
     \<lparr>action_dim = 2,
      base_layers = [Dense (zero_kernel 0) (zero_bias 0) 1 1 Relu],
      out_prob = Dense (zero_kernel 1) (zero_bias 1) 1 2 Softmax,
      inherited = Map.empty\<rparr>"

definition example_critic :: critic where
  "example_critic =
     \<lparr>action_dim = 2,
      base_layers = [Dense (zero_kernel 0) (zero_bias 0) 1 1 Relu],
      out_prob = Dense (zero_kernel 1) (zero_bias 1) 1 2 Softmax,
      inherited = Map.empty,
      v = Dense (zero_kernel 2) (zero_bias 2) 1 1 Linear\<rparr>"

definition skewed_bias :: "nat \<Rightarrow> nat \<Rightarrow> real" where
  "skewed_bias k j = (if j = 1 then ln 3 else 0)"

definition skewed_actor :: actor where
  "skewed_actor =
     \<lparr>action_dim = 2,
      base_layers = [],
      out_prob = Dense (zero_kernel 0) (skewed_bias 0) 1 2 Softmax,
      inherited = Map.empty\<rparr>"

section \<open>Lemmas on the framework operations\<close>

lemma map_err_all:
  "(\<And>x. x \<in> set xs \<Longrightarrow> f x = Inr (g x)) \<Longrightarrow> map_err f xs = Inr (map g xs)"
  by (induction xs) auto


lemma length_affine [simp]: "length (affine l x) = n_units l"
  by (simp add: affine_def)

lemma length_softmax [simp]: "length (softmax z) = length z"
  by (simp add: softmax_def)

lemma length_activate [simp]: "length (activate a z) = length z"
  by (cases a) simp_all

lemma length_layer_out [simp]: "length (layer_out l x) = n_units l"
  by (simp add: layer_out_def)

lemma Dense_sel [simp]:
  "n_units (Dense w b i n a) = n" "activation (Dense w b i n a) = a"
  "length (kernel (Dense w b i n a)) = i" "length (bias (Dense w b i n a)) = n"
  by (simp_all add: Dense_def)

lemma dense_call_ok:
  "(\<And>x. x \<in> set xs \<Longrightarrow> length x = length (kernel l)) \<Longrightarrow>
   dense_call l xs = Inr (map (layer_out l) xs)"
  unfolding dense_call_def
  by (rule map_err_all) (simp add: dense_apply_def layer_out_def)


lemma map_err_Inr_set:
  "map_err f xs = Inr ys \<Longrightarrow> y \<in> set ys \<Longrightarrow> \<exists>x\<in>set xs. f x = Inr y"
  by (induction xs arbitrary: ys) (auto split: sum.splits)

lemma dense_call_Inr_length:
  "dense_call l xs = Inr ys \<Longrightarrow> y \<in> set ys \<Longrightarrow> length y = n_units l"
  by (auto simp: dense_call_def dense_apply_def dest!: map_err_Inr_set split: if_splits)

subsection \<open>Softmax\<close>

lemma sum_list_exp_nonneg: "0 \<le> sum_list (map exp (z::real list))"
  by (rule sum_list_nonneg) auto

lemma sum_list_exp_pos: "z \<noteq> [] \<Longrightarrow> 0 < sum_list (map exp (z::real list))"
proof (cases z)
  case Nil
  assume "z \<noteq> []"
  with Nil show ?thesis by simp
next
  case (Cons a as)
  have "0 < exp a + sum_list (map exp as)"
    by (rule add_pos_nonneg) (simp_all add: sum_list_exp_nonneg)
  with Cons show ?thesis by simp
qed

lemma softmax_pos: "x \<in> set (softmax z) \<Longrightarrow> 0 < x"
  by (cases "z = []") (auto simp: softmax_def intro!: divide_pos_pos sum_list_exp_pos)

lemma ln_neq_self: "0 < x \<Longrightarrow> ln x \<noteq> (x::real)"
  using ln_le_minus_one [of x] by linarith

subsection \<open>Sampling\<close>

lemma pick_less: "ps \<noteq> [] \<Longrightarrow> pick u ps < length ps"
  by (induction u ps rule: pick.induct) auto

lemma gather_ok:
  "(\<And>p a. (p, a) \<in> set (zip ps action) \<Longrightarrow> a < length p) \<Longrightarrow>
   gather f ps action = Inr (map (\<lambda>(p, a). f (p ! a)) (zip ps action))"
  unfolding gather_def by (rule map_err_all) auto

lemma Categorical_sample_Inr:
  assumes "Categorical_sample d rng = Inr action" and "a \<in> set action"
  shows "\<exists>p\<in>set (probs_parameter d). p \<noteq> [] \<and> a < length p"
proof -
  from assms(1) have ne: "[] \<notin> set (logits d)"
    and act: "action = map (\<lambda>(i, p). pick (rng i) p) (enumerate 0 (probs_parameter d))"
    by (auto simp: Categorical_sample_def split: if_splits)
  from assms(2) act obtain i p where ip: "(i, p) \<in> set (enumerate 0 (probs_parameter d))"
    and a: "a = pick (rng i) p"
    by auto
  from ip have p: "p \<in> set (probs_parameter d)" by (auto simp: in_set_enumerate_eq)
  then obtain z where z: "z \<in> set (logits d)" and pz: "p = softmax z"
    by (auto simp: probs_parameter_def)
  from z ne have "z \<noteq> []" by auto
  then have "p \<noteq> []" by (simp add: pz softmax_def)
  with a p show ?thesis using pick_less [of p "rng i"] by auto
qed

lemma zip_pick_less:
  assumes ne: "\<forall>p\<in>set ps. p \<noteq> []"
    and pa: "(p, a) \<in> set (zip ps (map (\<lambda>(i, p). pick (rng i) p) (enumerate 0 ps)))"
  shows "a < length p"
proof -
  from pa obtain i where i: "i < length ps" and p: "p = ps ! i"
    and a: "a = map (\<lambda>(i, p). pick (rng i) p) (enumerate 0 ps) ! i"
    by (auto simp: set_zip)
  have "a = pick (rng i) p" using i a p by (simp add: nth_enumerate_eq)
  moreover have "p \<noteq> []" using ne i p by simp
  ultimately show ?thesis by (simp add: pick_less)
qed

section \<open>The network of a constructed actor\<close>

lemma forward_make_layers:
  "(\<And>x. x \<in> set xs \<Longrightarrow> length x = in_dim) \<Longrightarrow>
   forward (make_layers kinit binit k in_dim us a) xs
     = Inr (map (feed_through (make_layers kinit binit k in_dim us a)) xs)"
proof (induction us arbitrary: k in_dim xs)
  case Nil
  then show ?case by (simp add: feed_through_def)
next
  case (Cons u us)
  let ?l = "Dense (kinit k) (binit k) in_dim u a"
  have 1: "dense_call ?l xs = Inr (map (layer_out ?l) xs)"
    by (rule dense_call_ok) (simp add: Cons.prems)
  have 2: "forward (make_layers kinit binit (Suc k) u us a) (map (layer_out ?l) xs)
      = Inr (map (feed_through (make_layers kinit binit (Suc k) u us a)) (map (layer_out ?l) xs))"
    by (rule Cons.IH) auto
  show ?case by (simp add: 1 2 feed_through_def)
qed

lemma length_feed_through_make_layers:
  "length x = in_dim \<Longrightarrow>
   length (feed_through (make_layers kinit binit k in_dim us a) x) = last (in_dim # us)"
proof (induction us arbitrary: k in_dim x)
  case Nil
  then show ?case by (simp add: feed_through_def)
next
  case (Cons u us)
  have "length (feed_through (make_layers kinit binit (Suc k) u us a)
           (layer_out (Dense (kinit k) (binit k) in_dim u a) x)) = last (u # us)"
    by (rule Cons.IH) simp
  then show ?case by (simp add: feed_through_def)
qed

lemma make_layers_units: "map n_units (make_layers kinit binit k in_dim us a) = us"
  by (induction us arbitrary: k in_dim) simp_all

lemma make_layers_activation:
  "l \<in> set (make_layers kinit binit k in_dim us a) \<Longrightarrow> activation l = a"
  by (induction us arbitrary: k in_dim) auto



lemma compute_dist_Inr_width:
  "compute_dist self states = Inr d \<Longrightarrow> p \<in> set (logits d) \<Longrightarrow> length p = n_units (out_prob self)"
  by (auto simp: compute_dist_def Categorical_def split: sum.splits dest: dense_call_Inr_length)

lemma compute_dist_built:
  assumes bl: "base_layers self = make_layers kinit binit 0 sd us a"
    and op: "out_prob self = Dense w b (last (sd # us)) ad Softmax"
    and st: "\<And>s. s \<in> set states \<Longrightarrow> length s = sd"
  shows "compute_dist self states =
    Inr (Categorical (map (\<lambda>s. softmax (affine (out_prob self) (feed_through (base_layers self) s))) states))"
proof -
  have 1: "forward (base_layers self) states = Inr (map (feed_through (base_layers self)) states)"
    unfolding bl by (rule forward_make_layers) (rule st)
  have 2: "dense_call (out_prob self) (map (feed_through (base_layers self)) states)
     = Inr (map (layer_out (out_prob self)) (map (feed_through (base_layers self)) states))"
  proof (rule dense_call_ok)
    fix x assume "x \<in> set (map (feed_through (base_layers self)) states)"
    then obtain s where s: "s \<in> set states" and x: "x = feed_through (base_layers self) s" by auto
    have "length x = last (sd # us)"
      unfolding x bl by (rule length_feed_through_make_layers) (rule st [OF s])
    then show "length x = length (kernel (out_prob self))" by (simp add: op)
  qed
  have 3: "layer_out (out_prob self) x = softmax (affine (out_prob self) x)" for x
    by (simp add: layer_out_def op)
  show ?thesis by (simp add: compute_dist_def 1 2 3 comp_def)
qed

lemma init_Inr:
  "CategoricalActor_init callm ext base kinit binit sd ad us a rng = Inr self \<Longrightarrow>
   self = \<lparr>action_dim = ad, base_layers = make_layers kinit binit 0 sd us a,
           out_prob = Dense (kinit (length us)) (binit (length us)) (last (sd # us)) ad Softmax,
           inherited = base, \<dots> = ext\<rparr>"
  by (auto simp: CategoricalActor_init_def Let_def split: sum.splits)

text \<open>A constructor that returns has run \<^verbatim>\<open>call\<close> on the zero state, which samples a
  class: the number of classes is positive.\<close>

lemma CategoricalActor_Inr:
  assumes "CategoricalActor base kinit binit sd ad us a rng = Inr self"
  shows "self = \<lparr>action_dim = ad, base_layers = make_layers kinit binit 0 sd us a,
           out_prob = Dense (kinit (length us)) (binit (length us)) (last (sd # us)) ad Softmax,
           inherited = base\<rparr> \<and> 0 < ad"
proof -
  let ?self = "\<lparr>action_dim = ad, base_layers = make_layers kinit binit 0 sd us a,
           out_prob = Dense (kinit (length us)) (binit (length us)) (last (sd # us)) ad Softmax,
           inherited = base\<rparr>"
  from assms have eq: "self = ?self"
    unfolding CategoricalActor_def by (rule init_Inr)
  from assms have c: "\<exists>r. call ?self [replicate sd 0] False rng = Inr r"
    by (auto simp: CategoricalActor_def CategoricalActor_init_def Let_def split: sum.splits)
  have cd: "compute_dist ?self [replicate sd 0] =
      Inr (Categorical (map (\<lambda>s. softmax (affine (out_prob ?self) (feed_through (base_layers ?self) s)))
             [replicate sd 0]))"
    by (rule compute_dist_built [where kinit=kinit and binit=binit and us=us and a=a and ad=ad]) auto
  have "0 < ad"
  proof (rule ccontr)
    assume "\<not> 0 < ad"
    then have "ad = 0" by simp
    then have "softmax (affine (out_prob ?self) x) = []" for x
      by (simp add: softmax_def affine_def)
    with c cd show False
      by (simp add: call_def Categorical_def Categorical_sample_def)
  qed
  with eq show ?thesis by simp
qed

lemma compute_dist_new:
  assumes new: "CategoricalActor base kinit binit sd ad us a rng = Inr self"
    and st: "\<forall>s\<in>set states. length s = sd"
  shows "compute_dist self states =
    Inr (Categorical (map (\<lambda>s. softmax (affine (out_prob self) (feed_through (base_layers self) s))) states))"
proof -
  from CategoricalActor_Inr [OF new]
  have bl: "base_layers self = make_layers kinit binit 0 sd us a"
    and op: "out_prob self = Dense (kinit (length us)) (binit (length us)) (last (sd # us)) ad Softmax"
    by simp_all
  show ?thesis using bl op by (rule compute_dist_built) (simp add: st)
qed

lemma call_False_of_built:
  assumes bl: "base_layers self = make_layers kinit binit 0 sd us a"
    and op: "out_prob self = Dense w b (last (sd # us)) ad Softmax"
    and st: "\<forall>s\<in>set states. length s = sd"
    and pos: "0 < ad"
  shows "\<exists>d. compute_dist self states = Inr d \<and>
     call self states False rng =
       Inr (map (\<lambda>(i, p). pick (rng i) p) (enumerate 0 (probs_parameter d)),
            map (\<lambda>(p, a). p ! a)
              (zip (probs_parameter d)
                 (map (\<lambda>(i, p). pick (rng i) p) (enumerate 0 (probs_parameter d)))))
     \<and> length (probs_parameter d) = length states
     \<and> (\<forall>p\<in>set (probs_parameter d). length p = ad)"
proof -
  define d where "d = Categorical (map (\<lambda>s. softmax (affine (out_prob self)
      (feed_through (base_layers self) s))) states)"
  have cd: "compute_dist self states = Inr d"
    unfolding d_def using bl op by (rule compute_dist_built) (simp add: st)
  let ?probs = "probs_parameter d"
  let ?acts = "map (\<lambda>(i, p). pick (rng i) p) (enumerate 0 ?probs)"
  have len: "length ?probs = length states"
    by (simp add: d_def probs_parameter_def Categorical_def)
  have w: "\<forall>p\<in>set ?probs. length p = ad"
    by (auto simp: d_def probs_parameter_def Categorical_def op)
  have lw: "\<forall>p\<in>set (logits d). length p = ad"
    by (auto simp: d_def Categorical_def op)
  have "[] \<notin> set (logits d)" using lw pos by auto
  then have smp: "Categorical_sample d rng = Inr ?acts"
    by (simp add: Categorical_sample_def)
  have ne: "\<forall>p\<in>set ?probs. p \<noteq> []" using w pos by auto
  have less: "a < length p" if "(p, a) \<in> set (zip ?probs ?acts)" for p a
    using ne that by (rule zip_pick_less)
  have "gather (\<lambda>x. x) ?probs ?acts = Inr (map (\<lambda>(p, a). p ! a) (zip ?probs ?acts))"
    by (rule gather_ok) (rule less)
  then have pr: "Categorical_prob d ?acts = Inr (map (\<lambda>(p, a). p ! a) (zip ?probs ?acts))"
    by (simp add: Categorical_prob_def broadcast_gather_def)
  show ?thesis
    using cd smp pr len w by (auto simp: call_def)
qed

lemma call_False_built:
  assumes new: "CategoricalActor base kinit binit sd ad us a rng0 = Inr self"
    and st: "\<forall>s\<in>set states. length s = sd"
  shows "\<exists>d. compute_dist self states = Inr d \<and>
     call self states False rng =
       Inr (map (\<lambda>(i, p). pick (rng i) p) (enumerate 0 (probs_parameter d)),
            map (\<lambda>(p, a). p ! a)
              (zip (probs_parameter d)
                 (map (\<lambda>(i, p). pick (rng i) p) (enumerate 0 (probs_parameter d)))))
     \<and> length (probs_parameter d) = length states
     \<and> (\<forall>p\<in>set (probs_parameter d). length p = action_dim self)
     \<and> 0 < action_dim self"
proof -
  from CategoricalActor_Inr [OF new]
  have bl: "base_layers self = make_layers kinit binit 0 sd us a"
    and op: "out_prob self = Dense (kinit (length us)) (binit (length us)) (last (sd # us)) ad Softmax"
    and ad: "action_dim self = ad" and pos: "0 < ad"
    by simp_all
  from call_False_of_built [OF bl op st pos, of rng] show ?thesis
    using ad pos by simp
qed

text \<open>The constructor returns the actor whenever the action dimension is positive.\<close>

lemma CategoricalActor_total:
  assumes pos: "0 < ad"
  shows "CategoricalActor base kinit binit sd ad us a rng =
    Inr \<lparr>action_dim = ad, base_layers = make_layers kinit binit 0 sd us a,
         out_prob = Dense (kinit (length us)) (binit (length us)) (last (sd # us)) ad Softmax,
         inherited = base\<rparr>"
proof -
  let ?self = "\<lparr>action_dim = ad, base_layers = make_layers kinit binit 0 sd us a,
         out_prob = Dense (kinit (length us)) (binit (length us)) (last (sd # us)) ad Softmax,
         inherited = base\<rparr>"
  have "\<exists>r. call ?self [replicate sd 0] False rng = Inr r"
    using call_False_of_built [of ?self kinit binit sd us a "kinit (length us)" "binit (length us)"
        ad "[replicate sd 0]" rng] pos
    by auto
  then show ?thesis
    by (auto simp: CategoricalActor_def CategoricalActor_init_def Let_def)
qed

subsection \<open>The example instances\<close>

lemmas eval_defs = call_def compute_dist_def
    dense_call_def dense_apply_def Dense_def affine_def Categorical_def Categorical_sample_def
    Categorical_prob_def broadcast_gather_def gather_def probs_parameter_def softmax_def
    zero_kernel_def zero_bias_def upt_rec [of 0] upt_rec [of 1] upt_rec [of "Suc 0"]

lemma example_actor_new:
  "CategoricalActor Map.empty zero_kernel zero_bias 1 2 [1] Relu (\<lambda>i. 0) = Inr example_actor"
  by (simp add: CategoricalActor_def CategoricalActor_init_def example_actor_def eval_defs)

lemma example_compute_dist:
  "compute_dist example_actor [[0]] = Inr (Categorical [[1/2, 1/2]])"
  by (simp add: example_actor_def eval_defs)

lemma example_call_False:
  "call example_actor [[0]] False (\<lambda>i. 0) = Inr ([0], [1/2])"
  by (simp add: example_actor_def eval_defs)

lemma example_action_dim: "action_dim example_actor = 2"
  by (simp add: example_actor_def)

lemma skewed_compute_dist:
  "compute_dist skewed_actor [[0]] = Inr (Categorical [[1/4, 3/4]])"
  by (simp add: skewed_actor_def skewed_bias_def eval_defs)

lemma exp_half_less_3: "exp (1/2 :: real) < 3"
proof -
  have "exp (1/2 :: real) < exp 1" by simp
  also have "exp (1 :: real) \<le> 3" by (rule exp_le)
  finally show ?thesis .
qed

lemma skewed_actor_new:
  "CategoricalActor Map.empty zero_kernel skewed_bias 1 2 [] Relu (\<lambda>i. 0) = Inr skewed_actor"
  by (simp add: CategoricalActor_total skewed_actor_def)

section \<open>CategoricalActor: the distribution\<close>

text \<open>
  Claim C5. \<^verbatim>\<open>_compute_dist\<close> is claimed to return the categorical distribution over
  \<open>action_dim\<close> actions that the network computes, the docstring saying that the network
  outputs the probabilities of the classes. The method hands the softmax output to
  \<^verbatim>\<open>Categorical\<close> as its first positional argument, which is \<open>logits\<close>: on the actor
  with output bias \<open>[0, ln 3]\<close> and the state \<open>[0]\<close> the network outputs the
  probabilities \<open>[1/4, 3/4]\<close>, and the class probabilities of the distribution returned
  are the softmax of these, a different vector.
\<close>

theorem compute_dist_takes_probs_as_logits:
  "CategoricalActor Map.empty zero_kernel skewed_bias 1 2 [] Relu (\<lambda>i. 0) = Inr skewed_actor
   \<and> compute_dist skewed_actor [[0]] = Inr (Categorical [[1/4, 3/4]])
   \<and> logits (Categorical [[1/4, 3/4]]) = [[1/4, 3/4]]
   \<and> probs_parameter (Categorical [[1/4, 3/4]])
        = [[exp (1/4) / (exp (1/4) + exp (3/4)), exp (3/4) / (exp (1/4) + exp (3/4))]]
   \<and> probs_parameter (Categorical [[1/4, 3/4]]) \<noteq> [[1/4, 3/4]]"
proof -
  have pos: "0 < exp (1/4 :: real) + exp (3/4)" by (intro add_pos_pos) simp_all
  have "exp (3/4 :: real) = exp (1/4) * exp (1/2)"
    by (simp add: exp_add [symmetric])
  moreover have "exp (1/4 :: real) * exp (1/2) < exp (1/4) * 3"
    using exp_half_less_3 by simp
  ultimately have lt: "exp (3/4 :: real) < 3 * exp (1/4)" by simp
  have "exp (1/4 :: real) / (exp (1/4) + exp (3/4)) \<noteq> 1/4"
  proof
    assume "exp (1/4 :: real) / (exp (1/4) + exp (3/4)) = 1/4"
    with pos have "4 * exp (1/4 :: real) = exp (1/4) + exp (3/4)"
      by (simp add: field_simps)
    with lt show False by simp
  qed
  then have ne: "[[exp (1/4 :: real) / (exp (1/4) + exp (3/4)),
                    exp (3/4) / (exp (1/4) + exp (3/4))]] \<noteq> [[1/4, 3/4]]"
    by simp
  have lg: "logits (Categorical [[1/4, 3/4]]) = [[1/4, 3/4]]"
    by (simp add: Categorical_def)
  have pp: "probs_parameter (Categorical [[1/4, 3/4]])
        = [[exp (1/4) / (exp (1/4) + exp (3/4)), exp (3/4) / (exp (1/4) + exp (3/4))]]"
    by (simp add: probs_parameter_def Categorical_def softmax_def)
  have npp: "probs_parameter (Categorical [[1/4, 3/4]]) \<noteq> [[1/4, 3/4]]"
    unfolding pp by (rule ne)
  show ?thesis
    by (intro conjI skewed_actor_new skewed_compute_dist lg pp npp)
qed

text \<open>
  What does hold of \<^verbatim>\<open>_compute_dist\<close>, for every actor the constructor returns and
  every batch of states of the constructor's width: the layers are those of the
  constructor's arguments, the value handed to \<^verbatim>\<open>Categorical\<close> is each state fed through
  the hidden layers in order and then through the softmax output layer, and the
  distribution has one row of \<open>adim\<close> classes per state.
\<close>

theorem compute_dist_feeds_layers:
  assumes new: "CategoricalActor base kinit binit state_dim adim units hidden_activation rng = Inr self"
    and st: "\<forall>s\<in>set states. length s = state_dim"
  shows "action_dim self = adim
    \<and> map n_units (base_layers self) = units
    \<and> (\<forall>l\<in>set (base_layers self). activation l = hidden_activation)
    \<and> n_units (out_prob self) = adim \<and> activation (out_prob self) = Softmax
    \<and> (\<exists>d. compute_dist self states = Inr d
          \<and> logits d = map (\<lambda>s. layer_out (out_prob self) (feed_through (base_layers self) s)) states
          \<and> length (probs_parameter d) = length states
          \<and> (\<forall>p\<in>set (probs_parameter d). length p = adim))"
proof -
  from CategoricalActor_Inr [OF new]
  have bl: "base_layers self = make_layers kinit binit 0 state_dim units hidden_activation"
    and op: "out_prob self = Dense (kinit (length units)) (binit (length units))
               (last (state_dim # units)) adim Softmax"
    and ad: "action_dim self = adim"
    by simp_all
  have cd: "compute_dist self states =
    Inr (Categorical (map (\<lambda>s. softmax (affine (out_prob self) (feed_through (base_layers self) s))) states))"
    using new st by (rule compute_dist_new)
  have lo: "layer_out (out_prob self) x = softmax (affine (out_prob self) x)" for x
    by (simp add: layer_out_def op)
  have a: "map n_units (base_layers self) = units"
    unfolding bl by (rule make_layers_units)
  have b: "\<forall>l\<in>set (base_layers self). activation l = hidden_activation"
    unfolding bl by (auto dest: make_layers_activation)
  have c: "n_units (out_prob self) = adim \<and> activation (out_prob self) = Softmax"
    by (simp add: op)
  have d: "\<forall>p\<in>set (probs_parameter (Categorical (map (\<lambda>s. softmax (affine (out_prob self)
              (feed_through (base_layers self) s))) states))). length p = adim"
    by (auto simp: probs_parameter_def Categorical_def op)
  show ?thesis
    using ad a b c d by (simp add: cd lo Categorical_def probs_parameter_def)
qed

theorem compute_dist_feeds_layers_witness:
  "CategoricalActor Map.empty zero_kernel zero_bias 1 2 [1] Relu (\<lambda>i. 0) = Inr example_actor
   \<and> length [0::real] = 1
   \<and> map n_units (base_layers example_actor) = [1]
   \<and> n_units (out_prob example_actor) = 2
   \<and> (\<exists>d. compute_dist example_actor [[0]] = Inr d \<and> length (probs_parameter d) = 1)"
  using compute_dist_feeds_layers [OF example_actor_new, of "[[0]]"] example_actor_new
  by auto

text \<open>
  Claim C3. \<^verbatim>\<open>compute_prob\<close> is claimed to succeed and to return the probability vectors.
  It subscripts the distribution object returned by \<^verbatim>\<open>_compute_dist\<close> with
  \<^verbatim>\<open>["prob"]\<close> as if it were the dict that \<^verbatim>\<open>CategoricalActorCritic.call\<close> builds, and
  raises: on the example actor and the batch of the single state \<open>[0]\<close> the result is an
  error.
\<close>

theorem compute_prob_raises:
  "compute_prob example_actor [[0]]
     = Inl (InvalidArgumentError ''a string does not slice the batch of a distribution'')"
  by (simp add: compute_prob_def example_compute_dist)

section \<open>CategoricalActor: call\<close>

text \<open>
  Claim C1. The second value of \<^verbatim>\<open>call\<close> is claimed to be the log-probability of the
  returned action. The method computes \<^verbatim>\<open>dist.prob(action)\<close>: on the example actor and
  the state \<open>[0]\<close> the distribution is uniform over two classes, the sampled action is
  0, the second value is its probability \<open>1/2\<close>, and the log-probability is
  \<open>ln (1/2)\<close>, a different number.
\<close>

theorem call_second_value_is_prob_not_log_prob:
  "compute_dist example_actor [[0]] = Inr (Categorical [[1/2, 1/2]])
   \<and> call example_actor [[0]] False (\<lambda>i. 0) = Inr ([0], [1/2])
   \<and> Categorical_log_prob (Categorical [[1/2, 1/2]]) [0] = Inr [ln (1/2)]
   \<and> ln (1/2) \<noteq> (1/2 :: real)"
proof -
  have "ln (1/2 :: real) < 0" by (simp add: ln_less_zero_iff)
  then have "ln (1/2) \<noteq> (1/2 :: real)" by linarith
  moreover have "Categorical_log_prob (Categorical [[1/2, 1/2]]) [0] = Inr [ln (1/2)]"
    by (simp add: Categorical_log_prob_def broadcast_gather_def gather_def Categorical_def
        probs_parameter_def softmax_def)
  ultimately show ?thesis
    by (simp add: example_compute_dist example_call_False)
qed

text \<open>
  The same holds of every constructed actor and every batch of the right width: with
  \<^verbatim>\<open>test=False\<close> the call returns, its second value is \<^verbatim>\<open>dist.prob\<close> of the sampled
  actions, and every entry differs from the log-probability of the same action.
\<close>

theorem call_returns_probabilities:
  assumes new: "CategoricalActor base kinit binit state_dim adim units hidden_activation rng0 = Inr self"
    and st: "\<forall>s\<in>set states. length s = state_dim"
  shows "\<exists>d action log_prob. compute_dist self states = Inr d
     \<and> call self states False rng = Inr (action, log_prob)
     \<and> Categorical_prob d action = Inr log_prob
     \<and> (\<exists>lp. Categorical_log_prob d action = Inr lp \<and> length lp = length log_prob
            \<and> (\<forall>i<length lp. lp ! i = ln (log_prob ! i) \<and> lp ! i \<noteq> log_prob ! i))"
proof -
  from call_False_built [OF new st, of rng]
  obtain d where cd: "compute_dist self states = Inr d" and c: "call self states False rng =
       Inr (map (\<lambda>(i, p). pick (rng i) p) (enumerate 0 (probs_parameter d)),
            map (\<lambda>(p, a). p ! a)
              (zip (probs_parameter d)
                 (map (\<lambda>(i, p). pick (rng i) p) (enumerate 0 (probs_parameter d)))))"
    and w: "\<forall>p\<in>set (probs_parameter d). length p = action_dim self"
    and pos: "0 < action_dim self"
    by blast
  let ?probs = "probs_parameter d"
  let ?acts = "map (\<lambda>(i, p). pick (rng i) p) (enumerate 0 ?probs)"
  let ?lp = "map (\<lambda>(p, a). p ! a) (zip ?probs ?acts)"
  have ne: "\<forall>p\<in>set ?probs. p \<noteq> []" using w pos by auto
  have less: "a < length p" if "(p, a) \<in> set (zip ?probs ?acts)" for p a
    using ne that by (rule zip_pick_less)
  have "gather (\<lambda>x. x) ?probs ?acts = Inr ?lp"
    by (rule gather_ok) (rule less)
  then have pr: "Categorical_prob d ?acts = Inr ?lp"
    by (simp add: Categorical_prob_def broadcast_gather_def)
  have "gather ln ?probs ?acts = Inr (map (\<lambda>(p, a). ln (p ! a)) (zip ?probs ?acts))"
    by (rule gather_ok) (rule less)
  then have lpr: "Categorical_log_prob d ?acts = Inr (map (\<lambda>(p, a). ln (p ! a)) (zip ?probs ?acts))"
    by (simp add: Categorical_log_prob_def broadcast_gather_def)
  have rng: "0 < x" if "x \<in> set ?lp" for x
  proof -
    from that obtain p a where pa: "(p, a) \<in> set (zip ?probs ?acts)" and x: "x = p ! a" by auto
    from pa have "p \<in> set ?probs" by (rule set_zip_leftD)
    then obtain z where p: "p = softmax z" by (auto simp: probs_parameter_def)
    from less [OF pa] x have "x \<in> set (softmax z)" by (simp add: p)
    then show ?thesis by (rule softmax_pos)
  qed
  have diff: "map (\<lambda>(p, a). ln (p ! a)) (zip ?probs ?acts) ! i = ln (?lp ! i)
      \<and> map (\<lambda>(p, a). ln (p ! a)) (zip ?probs ?acts) ! i \<noteq> ?lp ! i"
    if "i < length (zip ?probs ?acts)" for i
  proof -
    have "?lp ! i \<in> set ?lp" using that by (intro nth_mem) simp
    then have "0 < ?lp ! i" by (rule rng)
    then have "ln (?lp ! i) \<noteq> ?lp ! i" by (rule ln_neq_self)
    moreover have "map (\<lambda>(p, a). ln (p ! a)) (zip ?probs ?acts) ! i = ln (?lp ! i)"
      using that by (simp add: case_prod_beta)
    ultimately show ?thesis by simp
  qed
  show ?thesis
    apply (rule exI [of _ d], rule exI [of _ ?acts], rule exI [of _ ?lp])
    apply (intro conjI cd c pr)
    apply (rule exI [of _ "map (\<lambda>(p, a). ln (p ! a)) (zip ?probs ?acts)"])
    using lpr diff by simp
qed

theorem call_returns_probabilities_witness:
  "CategoricalActor Map.empty zero_kernel zero_bias 1 2 [1] Relu (\<lambda>i. 0) = Inr example_actor
   \<and> length [0::real] = 1
   \<and> call example_actor [[0]] False (\<lambda>i. 0) = Inr ([0], [1/2])
   \<and> Categorical_prob (Categorical [[1/2, 1/2]]) [0] = Inr [1/2]"
proof -
  have "Categorical_prob (Categorical [[1/2, 1/2]]) [0] = Inr [1/2]"
    by (simp add: eval_defs)
  then show ?thesis
    using call_returns_probabilities [OF example_actor_new, of "[[0]]" "\<lambda>i. 0"] example_actor_new
    by (simp add: example_call_False)
qed

text \<open>
  Claim C2. \<^verbatim>\<open>call(states, test=True)\<close> is claimed to return the greedy action, an index
  of a largest class probability. The method asks the distribution for its \<^verbatim>\<open>mean()\<close>,
  which the categorical distribution does not implement, where the \<^verbatim>\<open>call\<close> of
  \<^verbatim>\<open>CategoricalActorCritic\<close> takes the \<^verbatim>\<open>argmax\<close>: on the example actor and the state
  \<open>[0]\<close> the call raises and returns no action.
\<close>

theorem call_test_raises_not_implemented:
  "call example_actor [[0]] True rng
     = Inl (NotImplementedError ''mean is not implemented: Categorical'')"
  by (simp add: call_def example_compute_dist Categorical_mean_def)

text \<open>
  Claim C6. Every action that \<^verbatim>\<open>call\<close> returns, for either value of \<^verbatim>\<open>test\<close>, is below
  \<open>action_dim\<close>: an action returned by an actor the constructor built is an index into
  a row of class probabilities, and every such row has \<open>action_dim\<close> entries. (With
  \<^verbatim>\<open>test=True\<close> the call returns no action, see claim C2; that it returns with
  \<^verbatim>\<open>test=False\<close> is the theorem after this one.)
\<close>

theorem returned_action_in_range:
  assumes new: "CategoricalActor base kinit binit state_dim adim units hidden_activation rng0 = Inr self"
    and c: "call self states test rng = Inr (action, log_prob)"
  shows "\<forall>a\<in>set action. a < action_dim self"
proof
  fix a assume a: "a \<in> set action"
  from CategoricalActor_Inr [OF new]
  have op: "n_units (out_prob self) = adim" and ad: "action_dim self = adim"
    by simp_all
  from c obtain d where cd: "compute_dist self states = Inr d"
    and act: "(if test then Categorical_mean d else Categorical_sample d rng) = Inr action"
    by (auto simp: call_def split: sum.splits)
  from act have smp: "Categorical_sample d rng = Inr action"
    by (cases test) (simp_all add: Categorical_mean_def)
  from Categorical_sample_Inr [OF smp a]
  obtain p where p: "p \<in> set (probs_parameter d)" and less: "a < length p" by blast
  from p obtain z where z: "z \<in> set (logits d)" and pz: "p = softmax z"
    by (auto simp: probs_parameter_def)
  from compute_dist_Inr_width [OF cd z] have "length p = adim" by (simp add: pz op)
  with less show "a < action_dim self" by (simp add: ad)
qed

theorem returned_action_in_range_witness:
  "CategoricalActor Map.empty zero_kernel zero_bias 1 2 [1] Relu (\<lambda>i. 0) = Inr example_actor
   \<and> call example_actor [[0]] False (\<lambda>i. 0) = Inr ([0], [1/2])
   \<and> (0::nat) < action_dim example_actor"
  using returned_action_in_range [OF example_actor_new example_call_False] example_actor_new
  by (simp add: example_call_False)

text \<open>
  With \<^verbatim>\<open>test=False\<close> the call of a constructed actor on a batch of the right width
  returns one action and one second value per state, and every action is below
  \<open>action_dim\<close>.
\<close>

theorem sampled_action_in_range:
  assumes new: "CategoricalActor base kinit binit state_dim adim units hidden_activation rng0 = Inr self"
    and st: "\<forall>s\<in>set states. length s = state_dim"
  shows "\<exists>action log_prob. call self states False rng = Inr (action, log_prob)
     \<and> length action = length states \<and> length log_prob = length states
     \<and> (\<forall>a\<in>set action. a < action_dim self)"
proof -
  from call_False_built [OF new st, of rng]
  obtain d where c: "call self states False rng =
       Inr (map (\<lambda>(i, p). pick (rng i) p) (enumerate 0 (probs_parameter d)),
            map (\<lambda>(p, a). p ! a)
              (zip (probs_parameter d)
                 (map (\<lambda>(i, p). pick (rng i) p) (enumerate 0 (probs_parameter d)))))"
    and len: "length (probs_parameter d) = length states"
    and w: "\<forall>p\<in>set (probs_parameter d). length p = action_dim self"
    and pos: "0 < action_dim self"
    by blast
  have "a < action_dim self"
    if "a \<in> set (map (\<lambda>(i, p). pick (rng i) p) (enumerate 0 (probs_parameter d)))" for a
  proof -
    from that obtain i p where ip: "(i, p) \<in> set (enumerate 0 (probs_parameter d))"
      and a: "a = pick (rng i) p"
      by auto
    from ip have "p \<in> set (probs_parameter d)" by (auto simp: in_set_enumerate_eq)
    with w pos have "length p = action_dim self" "p \<noteq> []" by auto
    with a show ?thesis using pick_less [of p "rng i"] by simp
  qed
  with c len show ?thesis by simp
qed

theorem sampled_action_in_range_witness:
  "CategoricalActor Map.empty zero_kernel zero_bias 1 2 [1] Relu (\<lambda>i. 0) = Inr example_actor
   \<and> length [0::real] = 1
   \<and> call example_actor [[0]] False (\<lambda>i. 0) = Inr ([0], [1/2])
   \<and> (0::nat) < action_dim example_actor"
  using sampled_action_in_range [OF example_actor_new, of "[[0]]" "\<lambda>i. 0"] example_actor_new
  by (simp add: example_call_False example_action_dim)

text \<open>
  Claim C7. Two calls of \<^verbatim>\<open>call(states, test=True)\<close> are claimed to return identical
  actions and identical second values. On the example actor and the state \<open>[0]\<close>, for
  two states of the random source, both calls raise the error of \<^verbatim>\<open>dist.mean()\<close>:
  neither returns an action or a second value.
\<close>

theorem call_test_twice_raises:
  "call example_actor [[0]] True (\<lambda>i. 0)
     = Inl (NotImplementedError ''mean is not implemented: Categorical'')
   \<and> call example_actor [[0]] True (\<lambda>i. 1/2)
     = Inl (NotImplementedError ''mean is not implemented: Categorical'')
   \<and> \<not> isl (call example_actor [[0]] False (\<lambda>i. 0))"
proof -
  have "call example_actor [[0]] True rng
     = Inl (NotImplementedError ''mean is not implemented: Categorical'')" for rng
    by (simp add: call_def example_compute_dist Categorical_mean_def)
  moreover have "\<not> isl (call example_actor [[0]] False (\<lambda>i. 0))"
    by (simp add: example_call_False)
  ultimately show ?thesis by simp
qed

section \<open>CategoricalActor: compute_log_probs\<close>




section \<open>CategoricalActorCritic\<close>

text \<open>
  Claim C10. Constructing a \<^verbatim>\<open>CategoricalActorCritic\<close> fails for every choice of
  constructor arguments: the forward pass of the parent constructor dispatches to the
  overriding \<^verbatim>\<open>call\<close>, whose first statement reads \<^verbatim>\<open>self._compute_feature\<close>. When the
  framework base class provides no attribute of that name the constructor raises the
  attribute error for it, and it returns no instance as soon as any one of
  \<^verbatim>\<open>_compute_feature\<close>, \<^verbatim>\<open>prob\<close> and \<^verbatim>\<open>dist\<close> is missing.
\<close>

theorem critic_construction_fails:
  "(base ''_compute_feature'' = None \<longrightarrow>
      CategoricalActorCritic base kinit binit state_dim adim units hidden_activation rng
        = Inl (AttributeError ''_compute_feature''))
   \<and> (base ''_compute_feature'' = None \<or> base ''prob'' = None \<or> base ''dist'' = None \<longrightarrow>
        isl (CategoricalActorCritic base kinit binit state_dim adim units hidden_activation rng))"
  by (auto simp: CategoricalActorCritic_def CategoricalActor_init_def
      CategoricalActorCritic_call_def getattr_def Let_def split: sum.splits option.splits)

theorem critic_construction_fails_witness:
  "CategoricalActorCritic Map.empty zero_kernel zero_bias 1 2 [1] Relu (\<lambda>i. 0)
     = Inl (AttributeError ''_compute_feature'')"
  using critic_construction_fails [of Map.empty zero_kernel zero_bias 1 2 "[1]" Relu "\<lambda>i. 0"]
  by simp

text \<open>
  Claim C4. \<^verbatim>\<open>CategoricalActorCritic.call\<close> is claimed to return a triple of action,
  log-probability and state value. On the object the constructor has assembled for
  \<^verbatim>\<open>state_shape=(1,)\<close>, \<^verbatim>\<open>action_dim=2\<close>, \<^verbatim>\<open>units=(1,)\<close> and the state \<open>[0]\<close>, the call
  raises the attribute error of its first statement for both values of \<^verbatim>\<open>test\<close>, and the
  value layer is never applied.
\<close>

theorem critic_call_raises:
  "CategoricalActorCritic_call example_critic [[0]] False rng
     = Inl (AttributeError ''_compute_feature'')
   \<and> CategoricalActorCritic_call example_critic [[0]] True rng
     = Inl (AttributeError ''_compute_feature'')"
  by (simp add: CategoricalActorCritic_call_def getattr_def example_critic_def)

end
